theory Spec2Isabelle
  imports Main "HOL-Library.Multiset"
begin

section \<open>The school planner backend (\<open>src/main.py\<close>)\<close>

text \<open>
  The program is a FastAPI application over an SQLAlchemy session bound to an SQLite
  file. Each handler reads or writes two tables and either returns a value or raises:
  \<open>HTTPException(status_code=404, ...)\<close> by its own \<open>raise\<close>, or an exception of
  the libraries it calls that it does not catch. The embedding keeps the two tables as lists
  of rows, passes the database through every handler that is registered under a writing
  HTTP method (POST, PUT, PATCH, DELETE), and models the reading handlers (GET) as
  functions of the database alone. What the handlers delegate to the ORM and to SQLite is
  written out as the SQL statements they stand for:
  \<^item> \<open>query.filter(p).first()\<close> is the first row satisfying \<open>p\<close>, or \<open>None\<close>;
  \<^item> \<open>query.filter(p).all()\<close> is the list of rows satisfying \<open>p\<close>;
  \<^item> \<open>db.delete(obj); db.commit()\<close> is \<open>DELETE ... WHERE id = obj.id\<close>;
  \<^item> an attribute assignment followed by \<open>db.commit()\<close> is
    \<open>UPDATE ... SET ... WHERE id = obj.id\<close>;
  \<^item> \<open>db.add(obj); db.commit(); db.refresh(obj)\<close> is an \<open>INSERT\<close> whose primary key
    SQLite chooses, followed by reading the row back.

  The handlers are modelled as the Python functions they are, with the value they return
  (the mapped object, before the response model drops \<open>timetable_id\<close>). Which handler
  a URL reaches is the router's matter and is not part of the model.
\<close>

subsection \<open>Data model\<close>

text \<open>
  A \<open>Date\<close> column holds a calendar date. Dates are modelled by their proleptic
  Gregorian ordinal (\<open>date.toordinal()\<close>): \<open>date.min\<close> is day 1 and \<open>date.max\<close>
  (9999-12-31) is day 3652059. Comparison of dates is comparison of ordinals.
\<close>

type_synonym date = int

definition date_min :: date where
  "date_min = 1"

definition date_max :: date where
  "date_max = 3652059"

text \<open>
  The two mapped classes. \<open>Timetable.tasks\<close> and \<open>Task.timetable\<close> are relationships,
  not columns: they are computed from \<open>Task.timetable_id\<close> and hold no state of their
  own. \<open>timetable_id\<close> is a nullable integer column. \<open>completed\<close> is written only by the
  column default (\<open>False\<close>) and by \<open>mark_task_complete\<close> (\<open>True\<close>), so it is a
  Boolean.
\<close>

record Timetable =
  id_Timetable :: int
  name :: string

record Task =
  id_Task :: int
  title :: string
  description :: string
  due_date :: date
  completed :: bool
  timetable_id :: "int option"

text \<open>The request schemas \<open>TimetableCreate\<close> and \<open>TaskCreate\<close>.\<close>

record TimetableCreate =
  name_in :: string

record TaskCreate =
  title_in :: string
  description_in :: string
  due_date_in :: date

text \<open>The database: the tables \<open>timetables\<close> and \<open>tasks\<close>, rows in rowid order of insertion.\<close>

record db =
  timetables :: "Timetable list"
  tasks :: "Task list"

text \<open>
  The exceptions a handler can raise: the explicit \<open>HTTPException\<close> with its status
  code and detail, and \<open>OverflowError\<close>, raised by \<open>date + timedelta\<close> when the sum
  leaves the range of \<open>date\<close> and by the SQLite driver when an integer does not fit an
  SQLite \<open>INTEGER\<close>.
\<close>

datatype error = HTTPException nat string | OverflowError

text \<open>
  The confirmation payloads \<open>{"detail": ...}\<close>: a fixed message, or the reminder's
  f-string with its two holes (the task's title and the reminder date).
\<close>

datatype detail = Detail string | ReminderDetail string date

subsection \<open>What the store does\<close>

text \<open>\<open>Query.first()\<close>: the first row of the result, or \<open>None\<close>.\<close>

definition first :: "'a list \<Rightarrow> 'a option" where
  "first rows = (case rows of [] \<Rightarrow> None | r # _ \<Rightarrow> Some r)"

text \<open>
  The ids in a path are Python integers of any size (\<open>task_id: int\<close>,
  \<open>timetable_id: int\<close>), while an SQLite \<open>INTEGER\<close> is a signed 64-bit value.
  The driver raises \<open>OverflowError\<close> when it binds an integer outside that range as a
  parameter of a statement, before the statement runs; no handler catches it. Every
  handler that puts a path id into a query or into an inserted row therefore starts with
  this check, and a failed check leaves the database as it was.
\<close>

definition int64_ok :: "int \<Rightarrow> bool" where
  "int64_ok i = (- 9223372036854775808 \<le> i \<and> i \<le> 9223372036854775807)"

text \<open>
  Both primary keys are declared \<open>Column(Integer, primary_key=True)\<close> on SQLite and no
  table sets \<open>sqlite_autoincrement\<close>, so \<open>id\<close> is an alias of the rowid without the
  \<open>AUTOINCREMENT\<close> keyword. For an insert that gives no rowid SQLite then takes one
  more than the largest rowid in the table at that moment, and 1 for an empty table.
  (The rule is SQLite's for tables whose largest rowid is below \<open>2^63 - 1\<close>.)
\<close>

definition next_rowid :: "int list \<Rightarrow> int" where
  "next_rowid ids = (if ids = [] then 1 else Max (set ids) + 1)"

text \<open>
  \<open>date + timedelta(days=n)\<close>: the date \<open>n\<close> days later, \<open>OverflowError\<close> when that
  is not a date.
\<close>

definition date_add :: "date \<Rightarrow> int \<Rightarrow> error + date" where
  "date_add d n = (if date_min \<le> d + n \<and> d + n \<le> date_max then Inr (d + n) else Inl OverflowError)"

text \<open>SQL's \<open>x BETWEEN lo AND hi\<close>: both bounds belong to the range.\<close>

definition between :: "date \<Rightarrow> date \<Rightarrow> date \<Rightarrow> bool" where
  "between x lo hi = (lo \<le> x \<and> x \<le> hi)"

subsection \<open>Timetable endpoints\<close>

definition create_timetable :: "TimetableCreate \<Rightarrow> db \<Rightarrow> Timetable \<times> db" where
  "create_timetable timetable d =
     (let new_timetable = \<lparr>id_Timetable = next_rowid (map id_Timetable (timetables d)),
                            name = name_in timetable\<rparr>
      in (new_timetable, d\<lparr>timetables := timetables d @ [new_timetable]\<rparr>))"

definition view_timetables :: "db \<Rightarrow> Timetable list" where
  "view_timetables d = timetables d"

definition get_timetable :: "int \<Rightarrow> db \<Rightarrow> error + Timetable" where
  "get_timetable timetable_id' d =
     (if \<not> int64_ok timetable_id' then Inl OverflowError
      else case first (filter (\<lambda>t. id_Timetable t = timetable_id') (timetables d)) of
         None \<Rightarrow> Inl (HTTPException 404 ''Timetable not found'')
       | Some timetable \<Rightarrow> Inr timetable)"

definition update_timetable ::
    "int \<Rightarrow> TimetableCreate \<Rightarrow> db \<Rightarrow> (error + Timetable) \<times> db" where
  "update_timetable timetable_id' timetable d =
     (if \<not> int64_ok timetable_id' then (Inl OverflowError, d)
      else case first (filter (\<lambda>t. id_Timetable t = timetable_id') (timetables d)) of
         None \<Rightarrow> (Inl (HTTPException 404 ''Timetable not found''), d)
       | Some existing_timetable \<Rightarrow>
           (Inr (existing_timetable\<lparr>name := name_in timetable\<rparr>),
            d\<lparr>timetables :=
                map (\<lambda>t. if id_Timetable t = id_Timetable existing_timetable
                          then t\<lparr>name := name_in timetable\<rparr> else t)
                    (timetables d)\<rparr>))"

text \<open>
  \<open>delete_timetable\<close> calls \<open>db.delete(timetable)\<close> on an object whose class declares
  \<open>tasks = relationship("Task", back_populates="timetable")\<close> with the default cascade
  (\<open>save-update, merge\<close>: no \<open>delete\<close>) and the default \<open>passive_deletes=False\<close>. For
  such a one-to-many relationship the ORM's flush loads the children of the deleted parent
  and de-associates them: it issues \<open>UPDATE tasks SET timetable_id = NULL\<close> for every task
  whose \<open>timetable_id\<close> is the parent's id, and then \<open>DELETE FROM timetables\<close> for the
  parent. No task row is deleted.
\<close>

definition delete_timetable :: "int \<Rightarrow> db \<Rightarrow> (error + detail) \<times> db" where
  "delete_timetable timetable_id' d =
     (if \<not> int64_ok timetable_id' then (Inl OverflowError, d)
      else case first (filter (\<lambda>t. id_Timetable t = timetable_id') (timetables d)) of
         None \<Rightarrow> (Inl (HTTPException 404 ''Timetable not found''), d)
       | Some timetable \<Rightarrow>
           (Inr (Detail ''Timetable deleted''),
            \<lparr>timetables = filter (\<lambda>t. id_Timetable t \<noteq> id_Timetable timetable) (timetables d),
             tasks = map (\<lambda>t. if Task.timetable_id t = Some (id_Timetable timetable)
                               then t\<lparr>Task.timetable_id := None\<rparr> else t)
                         (tasks d)\<rparr>))"

subsection \<open>Task endpoints\<close>

definition create_task :: "TaskCreate \<Rightarrow> db \<Rightarrow> Task \<times> db" where
  "create_task task d =
     (let new_task = \<lparr>id_Task = next_rowid (map id_Task (tasks d)),
                       title = title_in task, description = description_in task,
                       due_date = due_date_in task, completed = False,
                       timetable_id = None\<rparr>
      in (new_task, d\<lparr>tasks := tasks d @ [new_task]\<rparr>))"

definition view_tasks :: "db \<Rightarrow> Task list" where
  "view_tasks d = tasks d"

definition get_task :: "int \<Rightarrow> db \<Rightarrow> error + Task" where
  "get_task task_id d =
     (if \<not> int64_ok task_id then Inl OverflowError
      else case first (filter (\<lambda>t. id_Task t = task_id) (tasks d)) of
         None \<Rightarrow> Inl (HTTPException 404 ''Task not found'')
       | Some task \<Rightarrow> Inr task)"

definition update_task :: "int \<Rightarrow> TaskCreate \<Rightarrow> db \<Rightarrow> (error + Task) \<times> db" where
  "update_task task_id task d =
     (if \<not> int64_ok task_id then (Inl OverflowError, d)
      else case first (filter (\<lambda>t. id_Task t = task_id) (tasks d)) of
         None \<Rightarrow> (Inl (HTTPException 404 ''Task not found''), d)
       | Some existing_task \<Rightarrow>
           (Inr (existing_task\<lparr>title := title_in task, description := description_in task,
                               due_date := due_date_in task\<rparr>),
            d\<lparr>tasks :=
                map (\<lambda>t. if id_Task t = id_Task existing_task
                          then t\<lparr>title := title_in task, description := description_in task,
                                 due_date := due_date_in task\<rparr>
                          else t)
                    (tasks d)\<rparr>))"

definition delete_task :: "int \<Rightarrow> db \<Rightarrow> (error + detail) \<times> db" where
  "delete_task task_id d =
     (if \<not> int64_ok task_id then (Inl OverflowError, d)
      else case first (filter (\<lambda>t. id_Task t = task_id) (tasks d)) of
         None \<Rightarrow> (Inl (HTTPException 404 ''Task not found''), d)
       | Some task \<Rightarrow>
           (Inr (Detail ''Task deleted''),
            d\<lparr>tasks := filter (\<lambda>t. id_Task t \<noteq> id_Task task) (tasks d)\<rparr>))"

definition mark_task_complete :: "int \<Rightarrow> db \<Rightarrow> (error + Task) \<times> db" where
  "mark_task_complete task_id d =
     (if \<not> int64_ok task_id then (Inl OverflowError, d)
      else case first (filter (\<lambda>t. id_Task t = task_id) (tasks d)) of
         None \<Rightarrow> (Inl (HTTPException 404 ''Task not found''), d)
       | Some task \<Rightarrow>
           (Inr (task\<lparr>completed := True\<rparr>),
            d\<lparr>tasks :=
                map (\<lambda>t. if id_Task t = id_Task task then t\<lparr>completed := True\<rparr> else t)
                    (tasks d)\<rparr>))"

definition view_completed_tasks :: "db \<Rightarrow> Task list" where
  "view_completed_tasks d = filter (\<lambda>t. completed t = True) (tasks d)"

definition view_pending_tasks :: "db \<Rightarrow> Task list" where
  "view_pending_tasks d = filter (\<lambda>t. completed t = False) (tasks d)"

subsection \<open>Task and timetable associations\<close>

definition view_tasks_in_timetable :: "int \<Rightarrow> db \<Rightarrow> error + Task list" where
  "view_tasks_in_timetable timetable_id' d =
     (if \<not> int64_ok timetable_id' then Inl OverflowError
      else Inr (filter (\<lambda>t. Task.timetable_id t = Some timetable_id') (tasks d)))"

text \<open>
  \<open>add_task_to_timetable\<close> binds the path's \<open>timetable_id\<close> in its \<open>INSERT\<close>: out
  of range, \<open>db.commit()\<close> raises and no row is stored.
\<close>

definition add_task_to_timetable ::
    "int \<Rightarrow> TaskCreate \<Rightarrow> db \<Rightarrow> (error + Task) \<times> db" where
  "add_task_to_timetable timetable_id' task d =
     (if \<not> int64_ok timetable_id' then (Inl OverflowError, d)
      else let new_task = \<lparr>id_Task = next_rowid (map id_Task (tasks d)),
                            title = title_in task, description = description_in task,
                            due_date = due_date_in task, completed = False,
                            timetable_id = Some timetable_id'\<rparr>
           in (Inr new_task, d\<lparr>tasks := tasks d @ [new_task]\<rparr>))"

definition remove_task_from_timetable :: "int \<Rightarrow> int \<Rightarrow> db \<Rightarrow> (error + detail) \<times> db" where
  "remove_task_from_timetable timetable_id' task_id d =
     (if \<not> (int64_ok task_id \<and> int64_ok timetable_id') then (Inl OverflowError, d)
      else case first (filter (\<lambda>t. id_Task t = task_id \<and> Task.timetable_id t = Some timetable_id')
                          (tasks d)) of
         None \<Rightarrow> (Inl (HTTPException 404 ''Task not found in the timetable''), d)
       | Some task \<Rightarrow>
           (Inr (Detail ''Task removed from timetable''),
            d\<lparr>tasks := filter (\<lambda>t. id_Task t \<noteq> id_Task task) (tasks d)\<rparr>))"

subsection \<open>Additional features\<close>

text \<open>
  The three date handlers read \<open>date.today()\<close>; the model takes the day read from the
  clock as the argument \<open>today\<close>.
\<close>

definition set_task_reminder :: "int \<Rightarrow> date \<Rightarrow> db \<Rightarrow> (error + detail) \<times> db" where
  "set_task_reminder task_id reminder_date d =
     (if \<not> int64_ok task_id then (Inl OverflowError, d)
      else case first (filter (\<lambda>t. id_Task t = task_id) (tasks d)) of
         None \<Rightarrow> (Inl (HTTPException 404 ''Task not found''), d)
       | Some task \<Rightarrow> (Inr (ReminderDetail (title task) reminder_date), d))"

definition view_overdue_tasks :: "date \<Rightarrow> db \<Rightarrow> Task list" where
  "view_overdue_tasks today d =
     filter (\<lambda>t. due_date t < today \<and> completed t = False) (tasks d)"

definition get_weekly_task_summary :: "date \<Rightarrow> db \<Rightarrow> error + Task list" where
  "get_weekly_task_summary today d =
     (case date_add today 7 of
        Inl e \<Rightarrow> Inl e
      | Inr week_from_today \<Rightarrow>
          Inr (filter (\<lambda>t. between (due_date t) today week_from_today) (tasks d)))"

definition get_daily_task_summary :: "date \<Rightarrow> db \<Rightarrow> Task list" where
  "get_daily_task_summary today d = filter (\<lambda>t. due_date t = today) (tasks d)"

subsection \<open>The primary keys\<close>

text \<open>
  \<open>id\<close> is the primary key of both tables: no two rows of a table share it, and being
  the rowid it is a signed 64-bit value. The empty database satisfies this and every
  handler keeps it, the creating handlers as long as the table's largest rowid is below
  \<open>2^63 - 1\<close> (\<open>rowid_room\<close>), which is where \<open>next_rowid\<close> is SQLite's rule.
\<close>

definition pk_ok :: "db \<Rightarrow> bool" where
  "pk_ok d =
     (distinct (map id_Timetable (timetables d)) \<and> distinct (map id_Task (tasks d))
      \<and> list_all int64_ok (map id_Timetable (timetables d))
      \<and> list_all int64_ok (map id_Task (tasks d)))"

definition rowid_room :: "int list \<Rightarrow> bool" where
  "rowid_room ids = list_all (\<lambda>i. i < 9223372036854775807) ids"

definition empty_db :: db where
  "empty_db = \<lparr>timetables = [], tasks = []\<rparr>"

subsection \<open>Example data\<close>

text \<open>
  Two request bodies and the database of the scenario "create the timetable Fall2024, then
  add a task to it", built by the handlers themselves from the empty database.
\<close>

definition essay :: TaskCreate where
  "essay = \<lparr>title_in = ''Essay'', description_in = ''History essay'', due_date_in = 739200\<rparr>"

definition quiz :: TaskCreate where
  "quiz = \<lparr>title_in = ''Quiz'', description_in = ''Maths quiz'', due_date_in = 739207\<rparr>"

definition fall2024_db :: db where
  "fall2024_db =
     snd (add_task_to_timetable 1 essay (snd (create_timetable \<lparr>name_in = ''Fall2024''\<rparr> empty_db)))"

text \<open>
  A third request body, the database after three \<open>create_task\<close> calls (due dates on
  day 739200, seven days later and eight days later) and the database with one task
  under timetable 7.
\<close>

definition lab :: TaskCreate where
  "lab = \<lparr>title_in = ''Lab'', description_in = ''Physics lab report'', due_date_in = 739208\<rparr>"

definition week_db :: db where
  "week_db = snd (create_task lab (snd (create_task quiz (snd (create_task essay empty_db)))))"


section \<open>Properties\<close>

subsection \<open>Queries on a table\<close>

lemma first_find: "first (filter P xs) = find P xs"
  by (induction xs) (simp_all add: first_def)


lemma first_filter_SomeD: "first (filter P xs) = Some x \<Longrightarrow> x \<in> set xs \<and> P x"
  by (auto simp: first_find find_Some_iff)

lemma first_filter_key:
  "distinct (map f xs) \<Longrightarrow> x \<in> set xs \<Longrightarrow> first (filter (\<lambda>t. f t = f x) xs) = Some x"
proof (induction xs)
  case Nil
  then show ?case by simp
next
  case (Cons y ys)
  show ?case
  proof (cases "y = x")
    case True
    then show ?thesis by (simp add: first_def)
  next
    case False
    with Cons.prems have "x \<in> set ys" and "f y \<noteq> f x" by auto
    with Cons show ?thesis by simp
  qed
qed

lemma first_filter_map:
  assumes "\<And>t. f (g t) = f t"
  shows "first (filter (\<lambda>t. f t = k) (map g xs)) = map_option g (first (filter (\<lambda>t. f t = k) xs))"
  using assms by (induction xs) (simp_all add: first_def)

lemma first_filter_removed: "first (filter (\<lambda>t. f t = k) (filter (\<lambda>t. f t \<noteq> k) xs)) = None"
  by (induction xs) (simp_all add: first_def)

lemma next_rowid_fresh: "next_rowid ids \<notin> set ids"
proof (cases "ids = []")
  case True
  then show ?thesis by simp
next
  case False
  have "Max (set ids) + 1 \<in> set ids \<Longrightarrow> False"
  proof -
    assume "Max (set ids) + 1 \<in> set ids"
    then have "Max (set ids) + 1 \<le> Max (set ids)" by (intro Max_ge) simp_all
    then show False by simp
  qed
  with False show ?thesis by (auto simp: next_rowid_def)
qed

lemma first_Nil: "first [] = None"
  by (simp add: first_def)

lemma first_Cons: "first (x # xs) = Some x"
  by (simp add: first_def)

lemma first_id_None:
  "k \<notin> set (map f xs) \<Longrightarrow> first (filter (\<lambda>t. f t = k) xs) = None"
  by (induction xs) (auto simp: first_Nil)

lemma first_id_Some:
  "k \<in> set (map f xs) \<Longrightarrow> \<exists>x. first (filter (\<lambda>t. f t = k) xs) = Some x \<and> f x = k"
  by (induction xs) (auto simp: first_Cons)

lemma map_key_map: "(\<And>t. f (g t) = f t) \<Longrightarrow> map f (map g xs) = map f xs"
  by simp

lemma map_key_filter: "map f (filter (\<lambda>t. f t \<noteq> k) xs) = filter (\<lambda>i. i \<noteq> k) (map f xs)"
  by (simp add: filter_map o_def)

lemma next_rowid_room:
  assumes "rowid_room ids" and "list_all int64_ok ids"
  shows "int64_ok (next_rowid ids)"
proof (cases "ids = []")
  case True
  then show ?thesis by (simp add: next_rowid_def int64_ok_def)
next
  case False
  define m where "m = Max (set ids)"
  from False have "m \<in> set ids"
    unfolding m_def by (intro Max_in) simp_all
  with assms have "m < 9223372036854775807" and "- 9223372036854775808 \<le> m"
    by (auto simp: rowid_room_def int64_ok_def list_all_iff)
  with False show ?thesis
    by (simp add: next_rowid_def int64_ok_def flip: m_def)
qed

subsection \<open>The example databases, evaluated\<close>

lemma fall2024_db_eq:
  "fall2024_db = \<lparr>timetables = [\<lparr>id_Timetable = 1, name = ''Fall2024''\<rparr>],
       tasks = [\<lparr>id_Task = 1, title = ''Essay'', description = ''History essay'',
                 due_date = 739200, completed = False, timetable_id = Some 1\<rparr>]\<rparr>"
  by (simp add: fall2024_db_def add_task_to_timetable_def create_timetable_def empty_db_def
      next_rowid_def essay_def int64_ok_def Let_def)

lemma week_db_eq:
  "week_db = \<lparr>timetables = [],
       tasks = [\<lparr>id_Task = 1, title = ''Essay'', description = ''History essay'',
                 due_date = 739200, completed = False, timetable_id = None\<rparr>,
                \<lparr>id_Task = 2, title = ''Quiz'', description = ''Maths quiz'',
                 due_date = 739207, completed = False, timetable_id = None\<rparr>,
                \<lparr>id_Task = 3, title = ''Lab'', description = ''Physics lab report'',
                 due_date = 739208, completed = False, timetable_id = None\<rparr>]\<rparr>"
  by (simp add: week_db_def create_task_def empty_db_def next_rowid_def essay_def quiz_def
      lab_def Let_def)


subsection \<open>The id columns under each handler\<close>

lemma create_timetable_ids:
  "id_Timetable (fst (create_timetable n d)) = next_rowid (map id_Timetable (timetables d))
   \<and> map id_Timetable (timetables (snd (create_timetable n d))) =
       map id_Timetable (timetables d) @ [id_Timetable (fst (create_timetable n d))]"
  by (simp add: create_timetable_def Let_def)

lemma create_task_ids:
  "id_Task (fst (create_task c d)) = next_rowid (map id_Task (tasks d))
   \<and> map id_Task (tasks (snd (create_task c d))) =
       map id_Task (tasks d) @ [id_Task (fst (create_task c d))]"
  by (simp add: create_task_def Let_def)

lemma add_task_to_timetable_ids:
  assumes "int64_ok tt"
  shows "\<exists>t. fst (add_task_to_timetable tt c d) = Inr t
           \<and> id_Task t = next_rowid (map id_Task (tasks d))
           \<and> map id_Task (tasks (snd (add_task_to_timetable tt c d))) =
               map id_Task (tasks d) @ [id_Task t]"
  using assms by (simp add: add_task_to_timetable_def Let_def)

lemma add_task_to_timetable_overflow:
  "\<not> int64_ok tt \<Longrightarrow> add_task_to_timetable tt c d = (Inl OverflowError, d)"
  by (simp add: add_task_to_timetable_def)

lemma update_timetable_ids:
  "map id_Timetable (timetables (snd (update_timetable k n d))) = map id_Timetable (timetables d)"
  by (simp add: update_timetable_def map_key_map split: option.splits)

lemma update_task_ids:
  "map id_Task (tasks (snd (update_task k c d))) = map id_Task (tasks d)"
  by (simp add: update_task_def map_key_map split: option.splits)

lemma mark_task_complete_ids:
  "map id_Task (tasks (snd (mark_task_complete k d))) = map id_Task (tasks d)"
  by (simp add: mark_task_complete_def map_key_map split: option.splits)

lemma set_task_reminder_db: "snd (set_task_reminder k r d) = d"
  by (simp add: set_task_reminder_def split: option.splits)

lemma delete_timetable_ids:
  "map id_Task (tasks (snd (delete_timetable k d))) = map id_Task (tasks d)
   \<and> map id_Timetable (timetables (snd (delete_timetable k d))) \<in>
       {map id_Timetable (timetables d), filter (\<lambda>i. i \<noteq> k) (map id_Timetable (timetables d))}"
proof (cases "first (filter (\<lambda>t. id_Timetable t = k) (timetables d))")
  case None
  then show ?thesis
    by (simp add: delete_timetable_def)
next
  case (Some t)
  then have "id_Timetable t = k"
    by (auto dest: first_filter_SomeD)
  with Some show ?thesis
    by (simp add: delete_timetable_def map_key_map map_key_filter)
qed

lemma delete_task_ids:
  "map id_Task (tasks (snd (delete_task k d))) \<in>
     {map id_Task (tasks d), filter (\<lambda>i. i \<noteq> k) (map id_Task (tasks d))}"
proof (cases "first (filter (\<lambda>t. id_Task t = k) (tasks d))")
  case None
  then show ?thesis
    by (simp add: delete_task_def)
next
  case (Some t)
  then have "id_Task t = k"
    by (auto dest: first_filter_SomeD)
  with Some show ?thesis
    by (simp add: delete_task_def map_key_filter)
qed

lemma remove_task_from_timetable_ids:
  "map id_Task (tasks (snd (remove_task_from_timetable tt k d))) \<in>
     {map id_Task (tasks d), filter (\<lambda>i. i \<noteq> k) (map id_Task (tasks d))}"
proof (cases "first (filter (\<lambda>t. id_Task t = k \<and> timetable_id t = Some tt) (tasks d))")
  case None
  then show ?thesis
    by (simp add: remove_task_from_timetable_def)
next
  case (Some t)
  then have "id_Task t = k"
    by (auto dest: first_filter_SomeD)
  with Some show ?thesis
    by (simp add: remove_task_from_timetable_def map_key_filter)
qed

subsection \<open>The primary keys stay unique and in range\<close>

lemma pk_ok_empty_db: "pk_ok empty_db"
  by (simp add: pk_ok_def empty_db_def)

lemma timetables_kept:
  "timetables (snd (create_task c d)) = timetables d"
  "timetables (snd (add_task_to_timetable tt c d)) = timetables d"
  "timetables (snd (update_task k c d)) = timetables d"
  "timetables (snd (delete_task k d)) = timetables d"
  "timetables (snd (mark_task_complete k d)) = timetables d"
  "timetables (snd (remove_task_from_timetable tt k d)) = timetables d"
  by (simp_all add: create_task_def add_task_to_timetable_def update_task_def delete_task_def
      mark_task_complete_def remove_task_from_timetable_def Let_def split: option.splits)

lemma tasks_kept:
  "tasks (snd (create_timetable n d)) = tasks d"
  "tasks (snd (update_timetable k n d)) = tasks d"
  by (simp_all add: create_timetable_def update_timetable_def Let_def split: option.splits)

lemma key_column_ok:
  assumes "distinct ids \<and> list_all int64_ok ids"
    and "ids' \<in> {ids, filter (\<lambda>i. i \<noteq> k) ids}"
  shows "distinct ids' \<and> list_all int64_ok ids'"
  using assms by (auto simp: list_all_iff)

lemma key_column_grown:
  assumes "distinct ids \<and> list_all int64_ok ids" and "rowid_room ids"
  shows "distinct (ids @ [next_rowid ids]) \<and> list_all int64_ok (ids @ [next_rowid ids])"
  using assms next_rowid_fresh [of ids] next_rowid_room [of ids] by simp

lemma pk_ok_kept:
  assumes "pk_ok d"
  shows "pk_ok (snd (update_timetable k n d))"
    and "pk_ok (snd (delete_timetable k d))"
    and "pk_ok (snd (update_task k c d))"
    and "pk_ok (snd (delete_task k d))"
    and "pk_ok (snd (mark_task_complete k d))"
    and "pk_ok (snd (remove_task_from_timetable tt k d))"
    and "pk_ok (snd (set_task_reminder k r d))"
proof -
  from assms have tt: "distinct (map id_Timetable (timetables d))
      \<and> list_all int64_ok (map id_Timetable (timetables d))"
    and ts: "distinct (map id_Task (tasks d)) \<and> list_all int64_ok (map id_Task (tasks d))"
    by (simp_all add: pk_ok_def)
  show "pk_ok (snd (update_timetable k n d))"
    using tt ts by (simp add: pk_ok_def tasks_kept update_timetable_ids)
  show "pk_ok (snd (delete_timetable k d))"
    using ts key_column_ok [OF tt conjunct2 [OF delete_timetable_ids [of k d]]]
    by (simp add: pk_ok_def delete_timetable_ids)
  show "pk_ok (snd (update_task k c d))"
    using tt ts by (simp add: pk_ok_def timetables_kept update_task_ids)
  show "pk_ok (snd (delete_task k d))"
    using tt key_column_ok [OF ts delete_task_ids [of k d]]
    by (simp add: pk_ok_def timetables_kept)
  show "pk_ok (snd (mark_task_complete k d))"
    using tt ts by (simp add: pk_ok_def timetables_kept mark_task_complete_ids)
  show "pk_ok (snd (remove_task_from_timetable tt k d))"
    using tt key_column_ok [OF ts remove_task_from_timetable_ids [of tt k d]]
    by (simp add: pk_ok_def timetables_kept)
  show "pk_ok (snd (set_task_reminder k r d))"
    using assms by (simp add: set_task_reminder_db)
qed

lemma pk_ok_kept_create:
  assumes "pk_ok d"
  shows "rowid_room (map id_Timetable (timetables d)) \<Longrightarrow> pk_ok (snd (create_timetable n d))"
    and "rowid_room (map id_Task (tasks d)) \<Longrightarrow> pk_ok (snd (create_task c d))"
    and "rowid_room (map id_Task (tasks d)) \<Longrightarrow> pk_ok (snd (add_task_to_timetable tt c d))"
proof -
  from assms have tt: "distinct (map id_Timetable (timetables d))
      \<and> list_all int64_ok (map id_Timetable (timetables d))"
    and ts: "distinct (map id_Task (tasks d)) \<and> list_all int64_ok (map id_Task (tasks d))"
    by (simp_all add: pk_ok_def)
  show "pk_ok (snd (create_timetable n d))" if "rowid_room (map id_Timetable (timetables d))"
    using ts key_column_grown [OF tt that] create_timetable_ids [of n d]
    by (simp add: pk_ok_def tasks_kept)
  show "pk_ok (snd (create_task c d))" if "rowid_room (map id_Task (tasks d))"
    using tt key_column_grown [OF ts that] create_task_ids [of c d]
    by (simp add: pk_ok_def timetables_kept)
  show "pk_ok (snd (add_task_to_timetable tt c d))" if "rowid_room (map id_Task (tasks d))"
  proof (cases "int64_ok tt")
    case True
    from add_task_to_timetable_ids [OF True, of c d] tt key_column_grown [OF ts that]
    show ?thesis
      by (auto simp: pk_ok_def timetables_kept)
  next
    case False
    with assms show ?thesis
      by (simp add: add_task_to_timetable_overflow)
  qed
qed

section \<open>The claims\<close>

subsection \<open>C1: deleting a timetable\<close>

text \<open>
  Claim C1, as the code has it. A successful \<open>delete_timetable k\<close> deletes no task: for
  every stored task \<open>t\<close>, \<open>get_task\<close> on its id still succeeds afterwards. The task
  comes back with every field as before except that a \<open>timetable_id\<close> equal to \<open>k\<close> has
  become null; a task of another timetable, or of none, comes back unchanged. The column
  of task ids is the same, and no task is listed under timetable \<open>k\<close> any more.
\<close>

theorem delete_timetable_keeps_tasks:
  assumes pk: "pk_ok d" and t: "t \<in> set (tasks d)"
    and del: "fst (delete_timetable k d) = Inr r"
  shows "get_task (id_Task t) (snd (delete_timetable k d)) =
           Inr (if timetable_id t = Some k then t\<lparr>timetable_id := None\<rparr> else t)
         \<and> map id_Task (tasks (snd (delete_timetable k d))) = map id_Task (tasks d)
         \<and> view_tasks_in_timetable k (snd (delete_timetable k d)) = Inr []"
proof -
  from del have ok: "int64_ok k"
    by (auto simp: delete_timetable_def split: if_splits)
  from pk t have ok_t: "int64_ok (id_Task t)"
    by (auto simp: pk_ok_def list_all_iff)
  from del ok obtain tt
    where tt: "first (filter (\<lambda>t. id_Timetable t = k) (timetables d)) = Some tt"
    by (cases "first (filter (\<lambda>t. id_Timetable t = k) (timetables d))")
       (simp_all add: delete_timetable_def)
  then have k: "id_Timetable tt = k"
    by (auto dest: first_filter_SomeD)
  let ?g = "\<lambda>t. if timetable_id t = Some k then t\<lparr>timetable_id := None\<rparr> else t"
  have d': "tasks (snd (delete_timetable k d)) = map ?g (tasks d)"
    using tt k ok by (simp add: delete_timetable_def)
  have "first (filter (\<lambda>u. id_Task u = id_Task t) (tasks d)) = Some t"
    using pk t by (simp add: pk_ok_def first_filter_key)
  then have "get_task (id_Task t) (snd (delete_timetable k d)) = Inr (?g t)"
    using ok_t by (simp add: get_task_def d' first_filter_map)
  moreover have "map id_Task (map ?g (tasks d)) = map id_Task (tasks d)"
    by simp
  moreover have "filter (\<lambda>t. timetable_id t = Some k) (map ?g (tasks d)) = []"
    by (auto simp: filter_empty_conv)
  ultimately show ?thesis
    using ok by (simp add: d' view_tasks_in_timetable_def)
qed

text \<open>
  Claim C1 on the Fall2024 database: timetable 1 is deleted and task 1 is read back.
\<close>

theorem delete_timetable_keeps_tasks_witness:
  "pk_ok fall2024_db
   \<and> fst (delete_timetable 1 fall2024_db) = Inr (Detail ''Timetable deleted'')
   \<and> get_task 1 (snd (delete_timetable 1 fall2024_db)) =
       Inr \<lparr>id_Task = 1, title = ''Essay'', description = ''History essay'',
            due_date = 739200, completed = False, timetable_id = None\<rparr>
   \<and> map id_Task (tasks (snd (delete_timetable 1 fall2024_db))) = [1]
   \<and> view_tasks_in_timetable 1 (snd (delete_timetable 1 fall2024_db)) = Inr []"
proof -
  let ?t = "\<lparr>id_Task = 1, title = ''Essay'', description = ''History essay'',
            due_date = 739200, completed = False, timetable_id = Some 1\<rparr>"
  have pk: "pk_ok fall2024_db"
    by (simp add: fall2024_db_eq pk_ok_def int64_ok_def)
  have t: "?t \<in> set (tasks fall2024_db)"
    by (simp add: fall2024_db_eq)
  have del: "fst (delete_timetable 1 fall2024_db) = Inr (Detail ''Timetable deleted'')"
    by (simp add: fall2024_db_eq delete_timetable_def first_def int64_ok_def)
  from delete_timetable_keeps_tasks [OF pk t del] pk del show ?thesis
    by (simp add: fall2024_db_eq)
qed

text \<open>
  Claim C1 as stated (the task still reports \<open>timetable_id = k\<close>) fails in the scenario
  of the specification: the timetable Fall2024 gets id 1, the task added to it reports
  \<open>timetable_id = 1\<close>, and after \<open>delete_timetable 1\<close> succeeds the same task reports
  no timetable.
\<close>

theorem delete_timetable_nulls_timetable_id:
  "get_task 1 fall2024_db =
     Inr \<lparr>id_Task = 1, title = ''Essay'', description = ''History essay'',
          due_date = 739200, completed = False, timetable_id = Some 1\<rparr>
   \<and> fst (delete_timetable 1 fall2024_db) = Inr (Detail ''Timetable deleted'')
   \<and> get_task 1 (snd (delete_timetable 1 fall2024_db)) =
       Inr \<lparr>id_Task = 1, title = ''Essay'', description = ''History essay'',
            due_date = 739200, completed = False, timetable_id = None\<rparr>"
  by (simp add: fall2024_db_eq delete_timetable_def get_task_def first_def int64_ok_def)

subsection \<open>C2: completed and pending tasks\<close>

text \<open>
  Claim C2. In every database the completed tasks and the pending tasks share no task,
  and together they are the tasks of \<open>view_tasks\<close>: as sets, and also counted with
  multiplicity.
\<close>

theorem completed_pending_partition:
  "set (view_completed_tasks d) \<inter> set (view_pending_tasks d) = {}
   \<and> set (view_completed_tasks d) \<union> set (view_pending_tasks d) = set (view_tasks d)
   \<and> mset (view_completed_tasks d) + mset (view_pending_tasks d) = mset (view_tasks d)"
proof -
  have "set (view_completed_tasks d) \<inter> set (view_pending_tasks d) = {}"
    by (auto simp: view_completed_tasks_def view_pending_tasks_def)
  moreover have "set (view_completed_tasks d) \<union> set (view_pending_tasks d) = set (view_tasks d)"
    by (auto simp: view_completed_tasks_def view_pending_tasks_def view_tasks_def)
  moreover have "mset (view_completed_tasks d) + mset (view_pending_tasks d) = mset (view_tasks d)"
    by (simp add: view_completed_tasks_def view_pending_tasks_def view_tasks_def)
  ultimately show ?thesis by simp
qed

subsection \<open>C3: overdue tasks\<close>

text \<open>
  Claim C3. \<open>view_overdue_tasks\<close>, given the day read from the clock, returns exactly
  the tasks of \<open>view_tasks\<close> that are due strictly before that day and not completed;
  these are the pending tasks due before that day, so every overdue task is pending.
\<close>

theorem overdue_is_late_and_pending:
  "view_overdue_tasks today d =
     filter (\<lambda>t. due_date t < today \<and> completed t = False) (view_tasks d)
   \<and> view_overdue_tasks today d = filter (\<lambda>t. due_date t < today) (view_pending_tasks d)
   \<and> set (view_overdue_tasks today d) \<subseteq> set (view_pending_tasks d)"
  by (auto simp: view_overdue_tasks_def view_tasks_def view_pending_tasks_def conj_commute)

subsection \<open>C4: updating a task\<close>

text \<open>
  Claim C4. When \<open>get_task k\<close> finds the task \<open>t\<close>, \<open>update_task k\<close> succeeds and
  returns \<open>t\<close> with title, description and due date replaced by those of the request;
  \<open>get_task k\<close> on the new database returns the same task, whose \<open>completed\<close>,
  \<open>timetable_id\<close> and \<open>id\<close> are those of \<open>t\<close>.
\<close>

theorem update_task_sets_three_fields:
  assumes "get_task k d = Inr t"
  shows "fst (update_task k c d) =
           Inr (t\<lparr>title := title_in c, description := description_in c, due_date := due_date_in c\<rparr>)
       \<and> get_task k (snd (update_task k c d)) = fst (update_task k c d)
       \<and> (\<exists>t'. get_task k (snd (update_task k c d)) = Inr t'
               \<and> title t' = title_in c \<and> description t' = description_in c
               \<and> due_date t' = due_date_in c
               \<and> completed t' = completed t \<and> timetable_id t' = timetable_id t
               \<and> id_Task t' = id_Task t)"
proof -
  let ?g = "\<lambda>t. t\<lparr>title := title_in c, description := description_in c, due_date := due_date_in c\<rparr>"
  from assms have ok: "int64_ok k"
    and f: "first (filter (\<lambda>t. id_Task t = k) (tasks d)) = Some t"
    by (simp_all add: get_task_def split: if_splits option.splits)
  then have k: "id_Task t = k"
    by (auto dest: first_filter_SomeD)
  have r: "fst (update_task k c d) = Inr (?g t)"
    using f ok by (simp add: update_task_def)
  have d': "tasks (snd (update_task k c d)) = map (\<lambda>t. if id_Task t = k then ?g t else t) (tasks d)"
    using f k ok by (simp add: update_task_def)
  have "first (filter (\<lambda>t. id_Task t = k) (map (\<lambda>t. if id_Task t = k then ?g t else t) (tasks d)))
          = map_option (\<lambda>t. if id_Task t = k then ?g t else t) (first (filter (\<lambda>t. id_Task t = k) (tasks d)))"
    by (rule first_filter_map) simp
  then have g: "get_task k (snd (update_task k c d)) = Inr (?g t)"
    using f k ok by (simp add: get_task_def d')
  from r g show ?thesis by simp
qed

text \<open>
  Claim C4 on the database of three tasks: task 2 (the quiz) is updated with the body of
  the lab report.
\<close>

theorem update_task_sets_three_fields_witness:
  "get_task 2 week_db =
     Inr \<lparr>id_Task = 2, title = ''Quiz'', description = ''Maths quiz'',
          due_date = 739207, completed = False, timetable_id = None\<rparr>
   \<and> get_task 2 (snd (update_task 2 lab week_db)) =
       Inr \<lparr>id_Task = 2, title = ''Lab'', description = ''Physics lab report'',
            due_date = 739208, completed = False, timetable_id = None\<rparr>"
proof -
  have g: "get_task 2 week_db =
     Inr \<lparr>id_Task = 2, title = ''Quiz'', description = ''Maths quiz'',
          due_date = 739207, completed = False, timetable_id = None\<rparr>"
    by (simp add: week_db_eq get_task_def first_def int64_ok_def)
  from update_task_sets_three_fields [OF g, of lab] g show ?thesis
    by (simp add: lab_def)
qed

subsection \<open>C5: removing a task from a timetable\<close>




subsection \<open>C6: the weekly summary\<close>

text \<open>
  Claim C6. When \<open>today\<close> is a date and the day seven days later is one too,
  \<open>get_weekly_task_summary\<close> returns exactly the tasks due from \<open>today\<close> to
  \<open>today + 7\<close>, both days included: a task due \<open>today\<close> is returned, a task due on
  \<open>today + 7\<close> is returned, a task due on \<open>today + 8\<close> is not.
\<close>

theorem weekly_summary_closed_interval:
  assumes "date_min \<le> today" and "today + 7 \<le> date_max"
  shows "\<exists>ts. get_weekly_task_summary today d = Inr ts
           \<and> ts = filter (\<lambda>t. today \<le> due_date t \<and> due_date t \<le> today + 7) (view_tasks d)
           \<and> (\<forall>t \<in> set (view_tasks d).
                 (due_date t = today \<longrightarrow> t \<in> set ts)
               \<and> (due_date t = today + 7 \<longrightarrow> t \<in> set ts)
               \<and> (due_date t = today + 8 \<longrightarrow> t \<notin> set ts))"
proof -
  from assms have "date_add today 7 = Inr (today + 7)"
    by (simp add: date_add_def)
  then have "get_weekly_task_summary today d =
           Inr (filter (\<lambda>t. today \<le> due_date t \<and> due_date t \<le> today + 7) (view_tasks d))"
    by (simp add: get_weekly_task_summary_def between_def view_tasks_def)
  then show ?thesis
    by simp
qed

text \<open>
  Claim C6 on the database of three tasks, due on day 739200, seven days later and eight
  days later: read on day 739200, the summary holds tasks 1 and 2 and not task 3.
\<close>

theorem weekly_summary_closed_interval_witness:
  "date_min \<le> 739200 \<and> 739200 + 7 \<le> date_max
   \<and> map id_Task (view_tasks week_db) = [1, 2, 3]
   \<and> map due_date (view_tasks week_db) = [739200, 739200 + 7, 739200 + 8]
   \<and> map_sum id (map id_Task) (get_weekly_task_summary 739200 week_db) = Inr [1, 2]"
proof -
  have a: "date_min \<le> 739200" and b: "739200 + 7 \<le> date_max"
    by (simp_all add: date_min_def date_max_def)
  from weekly_summary_closed_interval [OF a b, of week_db] a b show ?thesis
    by (simp add: week_db_eq view_tasks_def)
qed

subsection \<open>C7: ids that resolve to no record\<close>

text \<open>
  Claim C7, as the code has it. For an id in the signed 64-bit range that no task carries,
  \<open>get_task\<close>, \<open>update_task\<close> and \<open>delete_task\<close> raise the 404 and leave the
  database as it is; likewise \<open>get_timetable\<close>, \<open>update_timetable\<close> and
  \<open>delete_timetable\<close> for such an id that no timetable carries. Deleting an existing id
  succeeds, and deleting the same id again raises the 404 and leaves the database as the
  first deletion left it.
\<close>

theorem missing_id_NotFound:
  assumes ok: "int64_ok k"
  shows "(k \<notin> set (map id_Task (tasks d)) \<longrightarrow>
      get_task k d = Inl (HTTPException 404 ''Task not found'')
    \<and> update_task k c d = (Inl (HTTPException 404 ''Task not found''), d)
    \<and> delete_task k d = (Inl (HTTPException 404 ''Task not found''), d))
   \<and> (k \<notin> set (map id_Timetable (timetables d)) \<longrightarrow>
      get_timetable k d = Inl (HTTPException 404 ''Timetable not found'')
    \<and> update_timetable k n d = (Inl (HTTPException 404 ''Timetable not found''), d)
    \<and> delete_timetable k d = (Inl (HTTPException 404 ''Timetable not found''), d))
   \<and> (k \<in> set (map id_Task (tasks d)) \<longrightarrow>
      fst (delete_task k d) = Inr (Detail ''Task deleted'')
    \<and> delete_task k (snd (delete_task k d)) =
        (Inl (HTTPException 404 ''Task not found''), snd (delete_task k d)))
   \<and> (k \<in> set (map id_Timetable (timetables d)) \<longrightarrow>
      fst (delete_timetable k d) = Inr (Detail ''Timetable deleted'')
    \<and> delete_timetable k (snd (delete_timetable k d)) =
        (Inl (HTTPException 404 ''Timetable not found''), snd (delete_timetable k d)))"
proof -
  have a: "get_task k d = Inl (HTTPException 404 ''Task not found'')
    \<and> update_task k c d = (Inl (HTTPException 404 ''Task not found''), d)
    \<and> delete_task k d = (Inl (HTTPException 404 ''Task not found''), d)"
    if "k \<notin> set (map id_Task (tasks d))"
    using first_id_None [OF that] ok
    by (simp add: get_task_def update_task_def delete_task_def)
  have b: "get_timetable k d = Inl (HTTPException 404 ''Timetable not found'')
    \<and> update_timetable k n d = (Inl (HTTPException 404 ''Timetable not found''), d)
    \<and> delete_timetable k d = (Inl (HTTPException 404 ''Timetable not found''), d)"
    if "k \<notin> set (map id_Timetable (timetables d))"
    using first_id_None [OF that] ok
    by (simp add: get_timetable_def update_timetable_def delete_timetable_def)
  have c: "fst (delete_task k d) = Inr (Detail ''Task deleted'')
    \<and> delete_task k (snd (delete_task k d)) =
        (Inl (HTTPException 404 ''Task not found''), snd (delete_task k d))"
    if "k \<in> set (map id_Task (tasks d))"
  proof -
    from first_id_Some [OF that] obtain t
      where t: "first (filter (\<lambda>t. id_Task t = k) (tasks d)) = Some t" "id_Task t = k"
      by blast
    with ok have r: "delete_task k d =
      (Inr (Detail ''Task deleted''), d\<lparr>tasks := filter (\<lambda>t. id_Task t \<noteq> k) (tasks d)\<rparr>)"
      by (simp add: delete_task_def)
    have "delete_task k (d\<lparr>tasks := filter (\<lambda>t. id_Task t \<noteq> k) (tasks d)\<rparr>) =
      (Inl (HTTPException 404 ''Task not found''), d\<lparr>tasks := filter (\<lambda>t. id_Task t \<noteq> k) (tasks d)\<rparr>)"
      using ok by (simp add: delete_task_def first_Nil)
    with r show ?thesis by simp
  qed
  have e: "fst (delete_timetable k d) = Inr (Detail ''Timetable deleted'')
    \<and> delete_timetable k (snd (delete_timetable k d)) =
        (Inl (HTTPException 404 ''Timetable not found''), snd (delete_timetable k d))"
    if "k \<in> set (map id_Timetable (timetables d))"
  proof -
    from first_id_Some [OF that] obtain t
      where t: "first (filter (\<lambda>t. id_Timetable t = k) (timetables d)) = Some t" "id_Timetable t = k"
      by blast
    let ?d' = "\<lparr>timetables = filter (\<lambda>t. id_Timetable t \<noteq> k) (timetables d),
            tasks = map (\<lambda>t. if Task.timetable_id t = Some k
                              then t\<lparr>Task.timetable_id := None\<rparr> else t) (tasks d)\<rparr>"
    from t ok have r: "delete_timetable k d = (Inr (Detail ''Timetable deleted''), ?d')"
      by (simp add: delete_timetable_def)
    have "delete_timetable k ?d' = (Inl (HTTPException 404 ''Timetable not found''), ?d')"
      using ok by (simp add: delete_timetable_def first_Nil)
    with r show ?thesis by simp
  qed
  from a b c e show ?thesis by blast
qed

text \<open>
  Claim C7 on the Fall2024 database: id 2 resolves to nothing in either table, and id 1
  is deleted twice in each table.
\<close>

theorem missing_id_NotFound_witness:
  "int64_ok 2 \<and> int64_ok 1
   \<and> get_task 2 fall2024_db = Inl (HTTPException 404 ''Task not found'')
   \<and> update_task 2 quiz fall2024_db = (Inl (HTTPException 404 ''Task not found''), fall2024_db)
   \<and> delete_task 2 fall2024_db = (Inl (HTTPException 404 ''Task not found''), fall2024_db)
   \<and> get_timetable 2 fall2024_db = Inl (HTTPException 404 ''Timetable not found'')
   \<and> update_timetable 2 \<lparr>name_in = ''Spring2025''\<rparr> fall2024_db =
       (Inl (HTTPException 404 ''Timetable not found''), fall2024_db)
   \<and> delete_timetable 2 fall2024_db =
       (Inl (HTTPException 404 ''Timetable not found''), fall2024_db)
   \<and> fst (delete_task 1 fall2024_db) = Inr (Detail ''Task deleted'')
   \<and> delete_task 1 (snd (delete_task 1 fall2024_db)) =
       (Inl (HTTPException 404 ''Task not found''), snd (delete_task 1 fall2024_db))
   \<and> fst (delete_timetable 1 fall2024_db) = Inr (Detail ''Timetable deleted'')
   \<and> delete_timetable 1 (snd (delete_timetable 1 fall2024_db)) =
       (Inl (HTTPException 404 ''Timetable not found''), snd (delete_timetable 1 fall2024_db))"
proof -
  have ok: "int64_ok 2" "int64_ok 1"
    by (simp_all add: int64_ok_def)
  have "2 \<notin> set (map id_Task (tasks fall2024_db))"
    and "2 \<notin> set (map id_Timetable (timetables fall2024_db))"
    and "1 \<in> set (map id_Task (tasks fall2024_db))"
    and "1 \<in> set (map id_Timetable (timetables fall2024_db))"
    by (simp_all add: fall2024_db_eq)
  with missing_id_NotFound [OF ok(1), of fall2024_db quiz "\<lparr>name_in = ''Spring2025''\<rparr>"]
       missing_id_NotFound [OF ok(2), of fall2024_db quiz "\<lparr>name_in = ''Spring2025''\<rparr>"] ok
  show ?thesis
    by simp
qed

text \<open>
  Claim C7 as stated (for every id that resolves to no record) fails for an id that is no
  SQLite integer: \<open>2^63\<close> is the id of no task and of no timetable of the Fall2024
  database, and each of the six handlers raises \<open>OverflowError\<close> instead of the 404.
\<close>

theorem missing_id_out_of_range:
  "9223372036854775808 \<notin> set (map id_Task (tasks fall2024_db))
   \<and> 9223372036854775808 \<notin> set (map id_Timetable (timetables fall2024_db))
   \<and> get_task 9223372036854775808 fall2024_db = Inl OverflowError
   \<and> update_task 9223372036854775808 quiz fall2024_db = (Inl OverflowError, fall2024_db)
   \<and> delete_task 9223372036854775808 fall2024_db = (Inl OverflowError, fall2024_db)
   \<and> get_timetable 9223372036854775808 fall2024_db = Inl OverflowError
   \<and> update_timetable 9223372036854775808 \<lparr>name_in = ''Spring2025''\<rparr> fall2024_db =
       (Inl OverflowError, fall2024_db)
   \<and> delete_timetable 9223372036854775808 fall2024_db = (Inl OverflowError, fall2024_db)"
  by (simp add: fall2024_db_eq get_task_def update_task_def delete_task_def get_timetable_def
      update_timetable_def delete_timetable_def int64_ok_def)

subsection \<open>C8: assigned ids\<close>




subsection \<open>C9: the reminder\<close>

text \<open>
  Claim C9, as the code has it. \<open>set_task_reminder\<close> never changes the database. For an
  id in the signed 64-bit range it raises the 404 when no task carries the id; whenever
  \<open>get_task\<close> finds a task it succeeds with the acknowledgement built from the title of
  that task and the reminder date.
\<close>

theorem set_task_reminder_no_effect:
  "snd (set_task_reminder k r d) = d
   \<and> (int64_ok k \<and> k \<notin> set (map id_Task (tasks d)) \<longrightarrow>
        fst (set_task_reminder k r d) = Inl (HTTPException 404 ''Task not found''))
   \<and> (\<forall>t. get_task k d = Inr t \<longrightarrow>
        fst (set_task_reminder k r d) = Inr (ReminderDetail (title t) r))"
proof -
  have "fst (set_task_reminder k r d) = Inl (HTTPException 404 ''Task not found'')"
    if "int64_ok k" and "k \<notin> set (map id_Task (tasks d))"
    using first_id_None [OF that(2)] that(1) by (simp add: set_task_reminder_def)
  moreover have "fst (set_task_reminder k r d) = Inr (ReminderDetail (title t) r)"
    if "get_task k d = Inr t" for t
    using that by (simp add: get_task_def set_task_reminder_def split: if_splits option.splits)
  ultimately show ?thesis
    by (simp add: set_task_reminder_db)
qed

text \<open>
  Claim C9 on the Fall2024 database: a reminder for task 1 and one for the missing task 2.
\<close>

theorem set_task_reminder_no_effect_witness:
  "int64_ok 2
   \<and> set_task_reminder 1 739199 fall2024_db = (Inr (ReminderDetail ''Essay'' 739199), fall2024_db)
   \<and> set_task_reminder 2 739199 fall2024_db =
       (Inl (HTTPException 404 ''Task not found''), fall2024_db)"
proof -
  have "2 \<notin> set (map id_Task (tasks fall2024_db))" and "int64_ok 2"
    by (simp_all add: fall2024_db_eq int64_ok_def)
  moreover have "get_task 1 fall2024_db =
     Inr \<lparr>id_Task = 1, title = ''Essay'', description = ''History essay'',
          due_date = 739200, completed = False, timetable_id = Some 1\<rparr>"
    by (simp add: fall2024_db_eq get_task_def first_def int64_ok_def)
  ultimately show ?thesis
    using set_task_reminder_no_effect [of 1 739199 fall2024_db]
      set_task_reminder_no_effect [of 2 739199 fall2024_db]
    by (simp add: prod_eq_iff)
qed

text \<open>
  Claim C9 as stated (NotFound whenever no task has the id) fails for an id that is no
  SQLite integer: no task of the Fall2024 database has id \<open>2^63\<close>, and the handler raises
  \<open>OverflowError\<close>, not the 404. The database is unchanged.
\<close>

theorem set_task_reminder_out_of_range:
  "9223372036854775808 \<notin> set (map id_Task (tasks fall2024_db))
   \<and> set_task_reminder 9223372036854775808 739199 fall2024_db = (Inl OverflowError, fall2024_db)"
  by (simp add: fall2024_db_eq set_task_reminder_def int64_ok_def)

subsection \<open>C10: completing a task twice\<close>

text \<open>
  Claim C10. When \<open>get_task k\<close> finds the task \<open>t\<close>, \<open>mark_task_complete k\<close>
  succeeds and returns \<open>t\<close> with \<open>completed = True\<close> and every other field as it was;
  a second call on the resulting database succeeds with the same task and leaves that
  database as it is. For a task that is already completed the returned task is \<open>t\<close>
  itself.
\<close>

theorem mark_task_complete_idempotent:
  assumes "get_task k d = Inr t"
  shows "fst (mark_task_complete k d) = Inr (t\<lparr>completed := True\<rparr>)
       \<and> mark_task_complete k (snd (mark_task_complete k d)) =
           (Inr (t\<lparr>completed := True\<rparr>), snd (mark_task_complete k d))
       \<and> (completed t \<longrightarrow> fst (mark_task_complete k d) = Inr t)"
proof -
  let ?g = "\<lambda>t. if id_Task t = k then t\<lparr>completed := True\<rparr> else t"
  from assms have ok: "int64_ok k"
    and f: "first (filter (\<lambda>t. id_Task t = k) (tasks d)) = Some t"
    by (simp_all add: get_task_def split: if_splits option.splits)
  then have k: "id_Task t = k"
    by (auto dest: first_filter_SomeD)
  from f k ok have r: "mark_task_complete k d =
      (Inr (t\<lparr>completed := True\<rparr>), d\<lparr>tasks := map ?g (tasks d)\<rparr>)"
    by (simp add: mark_task_complete_def)
  have "first (filter (\<lambda>t. id_Task t = k) (map ?g (tasks d)))
          = map_option ?g (first (filter (\<lambda>t. id_Task t = k) (tasks d)))"
    by (rule first_filter_map) simp
  with f k have f': "first (filter (\<lambda>t. id_Task t = k) (map ?g (tasks d))) =
      Some (t\<lparr>completed := True\<rparr>)"
    by simp
  have "map ?g (map ?g (tasks d)) = map ?g (tasks d)"
    by simp
  with f' k ok have "mark_task_complete k (d\<lparr>tasks := map ?g (tasks d)\<rparr>) =
      (Inr (t\<lparr>completed := True\<rparr>), d\<lparr>tasks := map ?g (tasks d)\<rparr>)"
    by (simp add: mark_task_complete_def del: map_map)
  with r show ?thesis
    by simp
qed

text \<open>
  Claim C10 on the Fall2024 database: task 1 is completed twice.
\<close>

theorem mark_task_complete_idempotent_witness:
  "fst (mark_task_complete 1 fall2024_db) =
     Inr \<lparr>id_Task = 1, title = ''Essay'', description = ''History essay'',
          due_date = 739200, completed = True, timetable_id = Some 1\<rparr>
   \<and> mark_task_complete 1 (snd (mark_task_complete 1 fall2024_db)) =
       (Inr \<lparr>id_Task = 1, title = ''Essay'', description = ''History essay'',
             due_date = 739200, completed = True, timetable_id = Some 1\<rparr>,
        snd (mark_task_complete 1 fall2024_db))"
proof -
  have g: "get_task 1 fall2024_db =
     Inr \<lparr>id_Task = 1, title = ''Essay'', description = ''History essay'',
          due_date = 739200, completed = False, timetable_id = Some 1\<rparr>"
    by (simp add: fall2024_db_eq get_task_def first_def int64_ok_def)
  from mark_task_complete_idempotent [OF g] show ?thesis
    by simp
qed

end
